theory Spec2Isabelle
  imports Main "HOL-Library.Word"
begin

unbundle bit_operations_syntax

section \<open>Go values used by package websocket\<close>

text \<open>
  A Go string is a sequence of bytes, and so is a HOL \<open>string\<close> (a list of 8-bit
  characters). The hash works on bytes and 32-bit words, modelled as machine words.
\<close>

type_synonym byte = "8 word"
type_synonym uint32 = "32 word"
type_synonym uint64 = "64 word"

definition string_bytes :: "string \<Rightarrow> byte list" where
  "string_bytes s = map (\<lambda>c. of_nat (of_char c)) s"

subsection \<open>ASCII case mapping and textproto.CanonicalMIMEHeaderKey\<close>

text \<open>
  Go's \<open>net/http\<close> reaches a header through \<open>textproto.CanonicalMIMEHeaderKey\<close>: a key
  made of header-field bytes only has its first letter and every letter after a hyphen
  in upper case and all other letters in lower case; a key with any other byte is
  returned as it is.
\<close>

definition toUpper :: "char \<Rightarrow> char" where
  "toUpper c =
     (let n = of_char c :: nat in if 97 \<le> n \<and> n \<le> 122 then char_of (n - 32) else c)"

definition toLower :: "char \<Rightarrow> char" where
  "toLower c =
     (let n = of_char c :: nat in if 65 \<le> n \<and> n \<le> 90 then char_of (n + 32) else c)"

definition validHeaderFieldByte :: "char \<Rightarrow> bool" where
  "validHeaderFieldByte c =
     (let n = of_char c :: nat in
        (48 \<le> n \<and> n \<le> 57) \<or> (65 \<le> n \<and> n \<le> 90) \<or> (97 \<le> n \<and> n \<le> 122) \<or>
        n \<in> {33, 35, 36, 37, 38, 39, 42, 43, 45, 46, 94, 95, 96, 124, 126})"

fun canonicalMIMEHeaderKey :: "bool \<Rightarrow> string \<Rightarrow> string" where
  "canonicalMIMEHeaderKey upper [] = []"
| "canonicalMIMEHeaderKey upper (c # cs) =
     (if upper then toUpper c else toLower c) #
     canonicalMIMEHeaderKey ((if upper then toUpper c else toLower c) = CHR ''-'') cs"

definition CanonicalMIMEHeaderKey :: "string \<Rightarrow> string" where
  "CanonicalMIMEHeaderKey s =
     (if list_all validHeaderFieldByte s then canonicalMIMEHeaderKey True s else s)"

text \<open>Comparison of two strings up to ASCII letter case.\<close>

definition EqualFold :: "string \<Rightarrow> string \<Rightarrow> bool" where
  "EqualFold s t = (map toLower s = map toLower t)"

subsection \<open>http.Header\<close>

text \<open>
  \<open>http.Header\<close> is \<open>map[string][]string\<close>. Indexing the map uses the key as it is;
  the methods \<open>Get\<close>, \<open>Set\<close>, \<open>Add\<close> and \<open>Del\<close> canonicalise the key they are given
  and nothing else.
\<close>

type_synonym header = "string \<rightharpoonup> string list"

definition Header_Get :: "header \<Rightarrow> string \<Rightarrow> string" where
  "Header_Get h key =
     (case h (CanonicalMIMEHeaderKey key) of
        None \<Rightarrow> []
      | Some [] \<Rightarrow> []
      | Some (v # vs) \<Rightarrow> v)"

definition Header_Set :: "header \<Rightarrow> string \<Rightarrow> string \<Rightarrow> header" where
  "Header_Set h key val = h(CanonicalMIMEHeaderKey key \<mapsto> [val])"

definition Header_Add :: "header \<Rightarrow> string \<Rightarrow> string \<Rightarrow> header" where
  "Header_Add h key val =
     h(CanonicalMIMEHeaderKey key \<mapsto>
         (case h (CanonicalMIMEHeaderKey key) of None \<Rightarrow> [] | Some vs \<Rightarrow> vs) @ [val])"

definition Header_Del :: "header \<Rightarrow> string \<Rightarrow> header" where
  "Header_Del h key = h(CanonicalMIMEHeaderKey key := None)"

subsection \<open>crypto/sha1\<close>

text \<open>
  SHA-1 as \<open>crypto/sha1\<close> computes it (FIPS 180-4): the message is padded with
  \<open>0x80\<close>, zeros up to 56 bytes modulo 64 and the bit length as a big-endian
  \<open>uint64\<close>; every 64-byte chunk is read as sixteen big-endian words, extended to
  eighty, and run through eighty rounds.
\<close>

definition RotateLeft32 :: "uint32 \<Rightarrow> nat \<Rightarrow> uint32" where
  "RotateLeft32 x k = push_bit k x OR drop_bit (32 - k) x"

definition be32 :: "byte \<Rightarrow> byte \<Rightarrow> byte \<Rightarrow> byte \<Rightarrow> uint32" where
  "be32 b0 b1 b2 b3 =
     push_bit 24 (ucast b0) OR push_bit 16 (ucast b1) OR push_bit 8 (ucast b2) OR ucast b3"

fun chunk_words :: "byte list \<Rightarrow> uint32 list" where
  "chunk_words (b0 # b1 # b2 # b3 # bs) = be32 b0 b1 b2 b3 # chunk_words bs"
| "chunk_words bs = []"

text \<open>
  \<open>win\<close> holds the last sixteen words of the message schedule, oldest first, as the
  circular buffer \<open>w[i&0xf]\<close> of the Go code does.
\<close>

definition next_word :: "uint32 list \<Rightarrow> uint32" where
  "next_word win = RotateLeft32 (win ! 13 XOR win ! 8 XOR win ! 2 XOR win ! 0) 1"

fun schedule :: "nat \<Rightarrow> uint32 list \<Rightarrow> uint32 list" where
  "schedule 0 win = []"
| "schedule (Suc n) win = next_word win # schedule n (tl win @ [next_word win])"

definition sha1_f :: "nat \<Rightarrow> uint32 \<Rightarrow> uint32 \<Rightarrow> uint32 \<Rightarrow> uint32" where
  "sha1_f i b c d =
     (if i < 20 then (b AND c) OR ((NOT b) AND d)
      else if i < 40 then b XOR c XOR d
      else if i < 60 then ((b OR c) AND d) OR (b AND c)
      else b XOR c XOR d)"

definition sha1_K :: "nat \<Rightarrow> uint32" where
  "sha1_K i =
     (if i < 20 then 0x5A827999
      else if i < 40 then 0x6ED9EBA1
      else if i < 60 then 0x8F1BBCDC
      else 0xCA62C1D6)"

type_synonym digest = "uint32 \<times> uint32 \<times> uint32 \<times> uint32 \<times> uint32"

fun rounds :: "nat \<Rightarrow> uint32 list \<Rightarrow> digest \<Rightarrow> digest" where
  "rounds i [] h = h"
| "rounds i (wi # ws) (a, b, c, d, e) =
     rounds (i + 1) ws
       (RotateLeft32 a 5 + sha1_f i b c d + e + wi + sha1_K i, a, RotateLeft32 b 30, c, d)"

fun add_digest :: "digest \<Rightarrow> digest \<Rightarrow> digest" where
  "add_digest (h0, h1, h2, h3, h4) (a, b, c, d, e) = (h0 + a, h1 + b, h2 + c, h3 + d, h4 + e)"

definition block :: "digest \<Rightarrow> byte list \<Rightarrow> digest" where
  "block h p = add_digest h (rounds 0 (chunk_words p @ schedule 64 (chunk_words p)) h)"

function blockGeneric :: "digest \<Rightarrow> byte list \<Rightarrow> digest" where
  "blockGeneric h p =
     (if 64 \<le> length p then blockGeneric (block h (take 64 p)) (drop 64 p) else h)"
  by pat_completeness auto
termination
  by (relation "measure (\<lambda>(h, p). length p)") auto

definition put_be32 :: "uint32 \<Rightarrow> byte list" where
  "put_be32 x = [ucast (drop_bit 24 x), ucast (drop_bit 16 x), ucast (drop_bit 8 x), ucast x]"

definition put_be64 :: "uint64 \<Rightarrow> byte list" where
  "put_be64 x =
     [ucast (drop_bit 56 x), ucast (drop_bit 48 x), ucast (drop_bit 40 x),
      ucast (drop_bit 32 x), ucast (drop_bit 24 x), ucast (drop_bit 16 x),
      ucast (drop_bit 8 x), ucast x]"

definition padding :: "nat \<Rightarrow> byte list" where
  "padding len =
     0x80 #
     replicate ((if len mod 64 < 56 then 56 - len mod 64 else 64 + 56 - len mod 64) - 1) 0 @
     put_be64 (push_bit 3 (of_nat len))"

definition sha1_init :: digest where
  "sha1_init = (0x67452301, 0xEFCDAB89, 0x98BADCFE, 0x10325476, 0xC3D2E1F0)"

fun digest_bytes :: "digest \<Rightarrow> byte list" where
  "digest_bytes (h0, h1, h2, h3, h4) =
     put_be32 h0 @ put_be32 h1 @ put_be32 h2 @ put_be32 h3 @ put_be32 h4"

definition sha1_Sum :: "byte list \<Rightarrow> byte list" where
  "sha1_Sum m = digest_bytes (blockGeneric sha1_init (m @ padding (length m)))"

subsection \<open>encoding/base64\<close>

text \<open>
  \<open>base64.StdEncoding.EncodeToString\<close>: three bytes give four characters of the
  standard alphabet; a last group of one or two bytes is padded with \<open>=\<close>.
\<close>

definition encodeStd :: string where
  "encodeStd = ''ABCDEFGHIJKLMNOPQRSTUVWXYZabcdefghijklmnopqrstuvwxyz0123456789+/''"

definition enc6 :: "uint32 \<Rightarrow> char" where
  "enc6 v = encodeStd ! unat (v AND 0x3F)"

fun EncodeToString :: "byte list \<Rightarrow> string" where
  "EncodeToString [] = []"
| "EncodeToString [b0] =
     [enc6 (drop_bit 18 (push_bit 16 (ucast b0))),
      enc6 (drop_bit 12 (push_bit 16 (ucast b0))), CHR ''='', CHR ''='']"
| "EncodeToString [b0, b1] =
     [enc6 (drop_bit 18 (push_bit 16 (ucast b0) OR push_bit 8 (ucast b1))),
      enc6 (drop_bit 12 (push_bit 16 (ucast b0) OR push_bit 8 (ucast b1))),
      enc6 (drop_bit 6 (push_bit 16 (ucast b0) OR push_bit 8 (ucast b1))), CHR ''='']"
| "EncodeToString (b0 # b1 # b2 # bs) =
     [enc6 (drop_bit 18 (push_bit 16 (ucast b0) OR push_bit 8 (ucast b1) OR ucast b2)),
      enc6 (drop_bit 12 (push_bit 16 (ucast b0) OR push_bit 8 (ucast b1) OR ucast b2)),
      enc6 (drop_bit 6 (push_bit 16 (ucast b0) OR push_bit 8 (ucast b1) OR ucast b2)),
      enc6 (push_bit 16 (ucast b0) OR push_bit 8 (ucast b1) OR ucast b2)]
     @ EncodeToString bs"

section \<open>Requests, responses and the dialer\<close>

record URL =
  Scheme :: string
  URL_Host :: string
  Path :: string
  RawQuery :: string

record Request =
  Method :: string
  URL :: URL
  Header :: header
  Host :: string

record Response =
  StatusCode :: nat
  Response_Header :: header

text \<open>
  The dialer of the gorilla library, the network behind it and the printing of a URL are
  outside the package. They are parameters: \<open>Dial\<close> takes the dialer, the target and the
  request headers, and the state of the outside world, and returns Go's triple of a
  connection, a response and an error (each may be nil) with the world after the call.
  \<open>default_Dialer\<close> stands for \<open>&websocket.Dialer{Proxy: http.ProxyFromEnvironment}\<close>.
\<close>

record ('c, 'd, 'e, 'w) collaborators =
  URL_String :: "URL \<Rightarrow> string"
  default_Dialer :: 'd
  Dial :: "'d \<Rightarrow> string \<Rightarrow> header \<Rightarrow> 'w \<Rightarrow> ('c option \<times> Response option \<times> 'e option) \<times> 'w"

text \<open>
  What a call of \<open>ClientConnect\<close> gives back: the three results, or a run-time panic
  (a nil response dereferenced).
\<close>

datatype ('c, 'e) outcome =
  Return "'c option" "Response option" "'e option"
| Panic

section \<open>Package websocket\<close>

definition stripWebsocketHeaders :: "string list" where
  "stripWebsocketHeaders =
     [''Upgrade'', ''Connection'', ''Sec-Websocket-Key'', ''Sec-Websocket-Version'',
      ''Sec-Websocket-Extensions'']"

text \<open>
  Modelled from the spec: the token matching that \<open>websocket.IsWebSocketUpgrade\<close> of
  the vendored gorilla library applies (the library is not among the sources). Spec 4.1
  asks for a case-insensitive, comma-separated token match: a header value is split at
  commas, each piece is stripped of spaces and tabs and compared up to letter case.
\<close>

fun split_commas :: "string \<Rightarrow> string list" where
  "split_commas [] = [[]]"
| "split_commas (c # cs) =
     (if c = CHR '','' then [] # split_commas cs
      else (case split_commas cs of [] \<Rightarrow> [[c]] | t # ts \<Rightarrow> (c # t) # ts))"

definition is_space :: "char \<Rightarrow> bool" where
  "is_space c = (c = CHR '' '' \<or> c = CHR 0x09)"

definition trim :: "string \<Rightarrow> string" where
  "trim s = rev (dropWhile is_space (rev (dropWhile is_space s)))"

definition header_values :: "header \<Rightarrow> string \<Rightarrow> string list" where
  "header_values h name = (case h name of None \<Rightarrow> [] | Some vs \<Rightarrow> vs)"

definition contains_token :: "string \<Rightarrow> string \<Rightarrow> bool" where
  "contains_token tok v = list_ex (\<lambda>t. EqualFold (trim t) tok) (split_commas v)"

text \<open>
  Modelled from the spec: \<open>websocket.IsWebSocketUpgrade\<close> of the vendored gorilla
  library, to which \<open>IsWebSocketUpgrade\<close> delegates, is not among the sources. The spec
  (4.1) gives its contract: true iff the request's \<open>Connection\<close> header contains the
  token \<open>Upgrade\<close> (case-insensitive, comma-separated token match) and its \<open>Upgrade\<close>
  header equals \<open>websocket\<close> (case-insensitive). A header with several values is taken
  value by value.
\<close>

definition gorilla_IsWebSocketUpgrade :: "Request \<Rightarrow> bool" where
  "gorilla_IsWebSocketUpgrade r =
     (list_ex (contains_token ''Upgrade'') (header_values (Header r) ''Connection'') \<and>
      list_ex (\<lambda>v. EqualFold v ''websocket'') (header_values (Header r) ''Upgrade''))"

definition IsWebSocketUpgrade :: "Request \<Rightarrow> bool" where
  "IsWebSocketUpgrade req = gorilla_IsWebSocketUpgrade req"

definition ChangeRequestScheme :: "URL \<Rightarrow> string" where
  "ChangeRequestScheme reqURL =
     (if Scheme reqURL = ''https'' then ''wss''
      else if Scheme reqURL = ''http'' then ''ws''
      else if Scheme reqURL = '''' then ''ws''
      else Scheme reqURL)"

definition sha1Base64 :: "string \<Rightarrow> string" where
  "sha1Base64 str = EncodeToString (sha1_Sum (string_bytes str))"

definition generateAcceptKey :: "Request \<Rightarrow> string" where
  "generateAcceptKey req =
     sha1Base64 (Header_Get (Header req) ''Sec-WebSocket-Key'' @
                 ''258EAFA5-E914-47DA-95CA-C5AB0DC85B11'')"

text \<open>
  \<open>websocketHeaders\<close> fills a fresh map with the entries of \<open>req.Header\<close>, key by key
  as they are, deletes the five names and sets \<open>Host\<close>.
\<close>

definition websocketHeaders :: "Request \<Rightarrow> header" where
  "websocketHeaders req =
     Header_Set (foldl Header_Del (Header req) stripWebsocketHeaders) ''Host'' (Host req)"

definition NewResponseHeader :: "Request \<Rightarrow> header" where
  "NewResponseHeader req =
     Header_Add
       (Header_Add (Header_Add Map.empty ''Connection'' ''Upgrade'')
          ''Sec-Websocket-Accept'' (generateAcceptKey req))
       ''Upgrade'' ''websocket''"

text \<open>
  \<open>ClientConnect\<close> writes the new scheme into the caller's request, so the model
  returns the request as well, and the world after the dial.
\<close>

definition ClientConnect ::
  "('c, 'd, 'e, 'w) collaborators \<Rightarrow> Request \<Rightarrow> 'd option \<Rightarrow> 'w \<Rightarrow>
     ('c, 'e) outcome \<times> Request \<times> 'w" where
  "ClientConnect env req dialler w =
     (let req1 = req\<lparr>URL := (URL req)\<lparr>Scheme := ChangeRequestScheme (URL req)\<rparr>\<rparr>;
          wsHeaders = websocketHeaders req1;
          dialler1 = (case dialler of None \<Rightarrow> default_Dialer env | Some d \<Rightarrow> d)
      in case Dial env dialler1 (URL_String env (URL req1)) wsHeaders w of
           ((conn, response, err), w1) \<Rightarrow>
             (case err of
                Some e \<Rightarrow> (Return None response (Some e), req1, w1)
              | None \<Rightarrow>
                  (case response of
                     None \<Rightarrow> (Panic, req1, w1)
                   | Some r \<Rightarrow>
                       (Return conn
                          (Some (r\<lparr>Response_Header :=
                                    Header_Set (Response_Header r) ''Sec-WebSocket-Accept''
                                      (generateAcceptKey req1)\<rparr>))
                          None,
                        req1, w1))))"

section \<open>Example inputs\<close>

text \<open>
  The opening handshake of RFC 6455, section 1.3, as a request; a plain GET without
  any header; and a request whose header map has a key that is not in canonical form.
\<close>

definition rfc_request :: Request where
  "rfc_request =
     \<lparr>Method = ''GET'',
      URL = \<lparr>Scheme = ''http'', URL_Host = ''server.example.com'', Path = ''/chat'',
             RawQuery = []\<rparr>,
      Header = [''Connection'' \<mapsto> [''keep-alive, Upgrade''], ''Upgrade'' \<mapsto> [''websocket''],
                ''Sec-Websocket-Key'' \<mapsto> [''dGhlIHNhbXBsZSBub25jZQ==''],
                ''Origin'' \<mapsto> [''http://example.com'']],
      Host = ''server.example.com''\<rparr>"

definition plain_get :: Request where
  "plain_get =
     \<lparr>Method = ''GET'',
      URL = \<lparr>Scheme = ''https'', URL_Host = ''server.example.com'', Path = ''/'',
             RawQuery = []\<rparr>,
      Header = Map.empty,
      Host = ''server.example.com''\<rparr>"

definition lowercase_request :: Request where
  "lowercase_request =
     \<lparr>Method = ''GET'',
      URL = \<lparr>Scheme = ''http'', URL_Host = ''server.example.com'', Path = ''/chat'',
             RawQuery = []\<rparr>,
      Header = [''upgrade'' \<mapsto> [''websocket'']],
      Host = ''server.example.com''\<rparr>"

text \<open>
  Two outside worlds that count the dials made: a backend that accepts every dial and
  answers with an accept header of its own, and one that refuses every dial with a
  partial response.
\<close>

definition print_url :: "URL \<Rightarrow> string" where
  "print_url u = Scheme u @ ''://'' @ URL_Host u @ Path u"

definition accepting_backend :: "(nat, unit, string, nat) collaborators" where
  "accepting_backend =
     \<lparr>URL_String = print_url,
      default_Dialer = (),
      Dial = (\<lambda>d target h n.
         ((Some 7,
           Some \<lparr>StatusCode = 101,
                 Response_Header = [''Sec-Websocket-Accept'' \<mapsto> [''from-the-backend'']]\<rparr>,
           None),
          Suc n))\<rparr>"

definition refusing_backend :: "(nat, unit, string, nat) collaborators" where
  "refusing_backend =
     \<lparr>URL_String = print_url,
      default_Dialer = (),
      Dial = (\<lambda>d target h n.
         ((None,
           Some \<lparr>StatusCode = 502, Response_Header = Map.empty\<rparr>,
           Some ''websocket: bad handshake''),
          Suc n))\<rparr>"

section \<open>Evaluation of the library functions\<close>

text \<open>
  Rewrite rules that let the simplifier run the hash on a literal message: recursion on
  numerals, and every intermediate word reduced to its value below \<open>2 ^ 32\<close>.
\<close>

lemma replicate_num: "replicate (numeral k) x = x # replicate (pred_numeral k) x"
  by (simp add: numeral_eq_Suc)

lemma schedule_numeral:
  "schedule (numeral k) win =
     word_of_int (uint (next_word win)) #
     schedule (pred_numeral k) (tl win @ [word_of_int (uint (next_word win))])"
  by (simp add: numeral_eq_Suc)

lemma rounds_zero:
  "rounds 0 (wi # ws) (a, b, c, d, e) =
     rounds (Suc 0) ws
       (word_of_int (uint (RotateLeft32 a 5 + sha1_f 0 b c d + e + wi + sha1_K 0)), a,
        word_of_int (uint (RotateLeft32 b 30)), c, d)"
  by simp

lemma rounds_one:
  "rounds (Suc 0) (wi # ws) (a, b, c, d, e) =
     rounds 2 ws
       (word_of_int (uint (RotateLeft32 a 5 + sha1_f 1 b c d + e + wi + sha1_K 1)), a,
        word_of_int (uint (RotateLeft32 b 30)), c, d)"
  by (simp add: numeral_2_eq_2)

lemma rounds_numeral:
  "rounds (numeral k) (wi # ws) (a, b, c, d, e) =
     rounds (numeral (k + Num.One)) ws
       (word_of_int (uint (RotateLeft32 a 5 + sha1_f (numeral k) b c d + e + wi + sha1_K (numeral k))), a,
        word_of_int (uint (RotateLeft32 b 30)), c, d)"
  by simp

lemma add_digest_eval:
  "add_digest (h0, h1, h2, h3, h4) (a, b, c, d, e) =
    (word_of_int (uint (h0 + a)), word_of_int (uint (h1 + b)), word_of_int (uint (h2 + c)),
     word_of_int (uint (h3 + d)), word_of_int (uint (h4 + e)))"
  by simp

lemma put_be32_eval:
  "put_be32 x =
     [word_of_int (uint (ucast (drop_bit 24 x) :: byte)),
      word_of_int (uint (ucast (drop_bit 16 x) :: byte)),
      word_of_int (uint (ucast (drop_bit 8 x) :: byte)),
      word_of_int (uint (ucast x :: byte))]"
  by (simp add: put_be32_def)

lemmas sha_eval = sha1_Sum_def string_bytes_def put_be64_def be32_def schedule_numeral next_word_def
  RotateLeft32_def block_def sha1_init_def sha1_f_def sha1_K_def put_be32_eval replicate_num
  rounds_zero rounds_one rounds_numeral add_digest_eval padding_def blockGeneric.simps

text \<open>The test vector of FIPS 180 for the message \<open>abc\<close> checks the model of the hash.\<close>

lemma sha1_abc:
  "sha1_Sum (string_bytes ''abc'') =
     [169, 153, 62, 54, 71, 6, 129, 106, 186, 62, 37, 113, 120, 80, 194, 108, 156, 208, 216, 157]"
  by (simp add: sha_eval del: rounds.simps(2) add_digest.simps)

lemma sha1_rfc:
  "sha1_Sum (string_bytes ''dGhlIHNhbXBsZSBub25jZQ==258EAFA5-E914-47DA-95CA-C5AB0DC85B11'') =
     [179, 122, 79, 44, 192, 98, 79, 22, 144, 246, 70, 6, 207, 56, 89, 69, 178, 190, 196, 234]"
  by (simp add: sha_eval del: rounds.simps(2) add_digest.simps)

lemma sha1_guid:
  "sha1_Sum (string_bytes ''258EAFA5-E914-47DA-95CA-C5AB0DC85B11'') =
     [41, 248, 125, 64, 139, 12, 85, 151, 37, 235, 17, 15, 99, 19, 199, 205, 111, 18, 103, 204]"
  by (simp add: sha_eval del: rounds.simps(2) add_digest.simps)

lemma sha1Base64_rfc:
  "sha1Base64 ''dGhlIHNhbXBsZSBub25jZQ==258EAFA5-E914-47DA-95CA-C5AB0DC85B11'' =
     ''s3pPLMBiTxaQ9kYGzzhZRbK+xOo=''"
  by (simp add: sha1Base64_def sha1_rfc enc6_def encodeStd_def)

lemma sha1Base64_guid:
  "sha1Base64 ''258EAFA5-E914-47DA-95CA-C5AB0DC85B11'' = ''Kfh9QIsMVZcl6xEPYxPHzW8SZ8w=''"
  by (simp add: sha1Base64_def sha1_guid enc6_def encodeStd_def)

lemma length_digest_bytes: "length (digest_bytes h) = 20"
  by (cases h) (simp add: put_be32_def)

lemma length_sha1_Sum: "length (sha1_Sum m) = 20"
  by (simp add: sha1_Sum_def length_digest_bytes)

lemma length_EncodeToString: "length (EncodeToString bs) = 4 * ((length bs + 2) div 3)"
proof (induction bs rule: EncodeToString.induct)
  case (4 b0 b1 b2 bs)
  have "(length (b0 # b1 # b2 # bs) + 2) div 3 = Suc ((length bs + 2) div 3)"
    by simp
  with 4 show ?case
    by simp
qed simp_all

lemma length_sha1Base64: "length (sha1Base64 str) = 28"
  by (simp add: sha1Base64_def length_EncodeToString length_sha1_Sum)

section \<open>The accept token\<close>

lemma canonical_key_name: "CanonicalMIMEHeaderKey ''Sec-WebSocket-Key'' = ''Sec-Websocket-Key''"
  by code_simp

text \<open>
  C1. For every nonce \<open>k\<close>, the accept token is the base64 encoding of the 20-byte SHA-1
  digest of \<open>k\<close> followed by the fixed GUID: \<open>generateAcceptKey\<close> reads the nonce with
  \<open>Get\<close> and hashes it with the GUID appended, so a request whose first
  \<open>Sec-Websocket-Key\<close> value is \<open>k\<close> gets the token of \<open>k\<close>, whatever else it holds
  (the token is a function of the nonce alone); the digest has 20 bytes; and the nonce
  \<open>dGhlIHNhbXBsZSBub25jZQ==\<close> of RFC 6455 gives \<open>s3pPLMBiTxaQ9kYGzzhZRbK+xOo=\<close>.
\<close>

theorem accept_token_is_base64_sha1:
  "generateAcceptKey req =
     EncodeToString (sha1_Sum (string_bytes
       (Header_Get (Header req) ''Sec-WebSocket-Key'' @ ''258EAFA5-E914-47DA-95CA-C5AB0DC85B11'')))
   \<and> generateAcceptKey (req\<lparr>Header := (Header req)(''Sec-Websocket-Key'' \<mapsto> k # ks)\<rparr>) =
     EncodeToString (sha1_Sum (string_bytes (k @ ''258EAFA5-E914-47DA-95CA-C5AB0DC85B11'')))
   \<and> length (sha1_Sum (string_bytes (k @ ''258EAFA5-E914-47DA-95CA-C5AB0DC85B11''))) = 20
   \<and> sha1Base64 (''dGhlIHNhbXBsZSBub25jZQ=='' @ ''258EAFA5-E914-47DA-95CA-C5AB0DC85B11'') =
     ''s3pPLMBiTxaQ9kYGzzhZRbK+xOo=''
   \<and> generateAcceptKey rfc_request = ''s3pPLMBiTxaQ9kYGzzhZRbK+xOo=''"
proof -
  have "generateAcceptKey rfc_request = ''s3pPLMBiTxaQ9kYGzzhZRbK+xOo=''"
    by (simp add: generateAcceptKey_def Header_Get_def canonical_key_name rfc_request_def
        sha1Base64_rfc)
  moreover have "sha1Base64 (''dGhlIHNhbXBsZSBub25jZQ=='' @ ''258EAFA5-E914-47DA-95CA-C5AB0DC85B11'') =
     ''s3pPLMBiTxaQ9kYGzzhZRbK+xOo=''"
    by (simp add: sha1Base64_rfc)
  ultimately show ?thesis
    by (simp add: generateAcceptKey_def sha1Base64_def Header_Get_def canonical_key_name
        length_sha1_Sum)
qed

section \<open>The scheme translator\<close>

text \<open>
  C5. \<open>ChangeRequestScheme\<close> follows the table: \<open>https\<close> gives \<open>wss\<close>, \<open>http\<close> gives
  \<open>ws\<close>, the empty scheme gives \<open>ws\<close>, and every other scheme is returned unchanged.
  It is a total function of the URL's scheme.
\<close>

theorem ChangeRequestScheme_table:
  "(Scheme u = ''https'' \<longrightarrow> ChangeRequestScheme u = ''wss'') \<and>
   (Scheme u = ''http'' \<longrightarrow> ChangeRequestScheme u = ''ws'') \<and>
   (Scheme u = [] \<longrightarrow> ChangeRequestScheme u = ''ws'') \<and>
   (Scheme u \<noteq> ''https'' \<and> Scheme u \<noteq> ''http'' \<and> Scheme u \<noteq> [] \<longrightarrow>
      ChangeRequestScheme u = Scheme u)"
  by (simp add: ChangeRequestScheme_def)

theorem ChangeRequestScheme_table_witness:
  "ChangeRequestScheme \<lparr>Scheme = ''https'', URL_Host = ''a'', Path = ''/'', RawQuery = []\<rparr> = ''wss'' \<and>
   ChangeRequestScheme \<lparr>Scheme = ''http'', URL_Host = ''a'', Path = ''/'', RawQuery = []\<rparr> = ''ws'' \<and>
   ChangeRequestScheme \<lparr>Scheme = [], URL_Host = ''a'', Path = ''/'', RawQuery = []\<rparr> = ''ws'' \<and>
   ChangeRequestScheme \<lparr>Scheme = ''wss'', URL_Host = ''a'', Path = ''/'', RawQuery = []\<rparr> = ''wss'' \<and>
   ChangeRequestScheme \<lparr>Scheme = ''ftp'', URL_Host = ''a'', Path = ''/'', RawQuery = []\<rparr> = ''ftp''"
  using
    ChangeRequestScheme_table [of "\<lparr>Scheme = ''https'', URL_Host = ''a'', Path = ''/'', RawQuery = []\<rparr>"]
    ChangeRequestScheme_table [of "\<lparr>Scheme = ''http'', URL_Host = ''a'', Path = ''/'', RawQuery = []\<rparr>"]
    ChangeRequestScheme_table [of "\<lparr>Scheme = [], URL_Host = ''a'', Path = ''/'', RawQuery = []\<rparr>"]
    ChangeRequestScheme_table [of "\<lparr>Scheme = ''wss'', URL_Host = ''a'', Path = ''/'', RawQuery = []\<rparr>"]
    ChangeRequestScheme_table [of "\<lparr>Scheme = ''ftp'', URL_Host = ''a'', Path = ''/'', RawQuery = []\<rparr>"]
  by simp

section \<open>The header sanitizer\<close>

lemma canonical_strip_names:
  "map CanonicalMIMEHeaderKey stripWebsocketHeaders = stripWebsocketHeaders"
  by code_simp

lemma canonical_Host: "CanonicalMIMEHeaderKey ''Host'' = ''Host''"
  by code_simp

lemma websocketHeaders_apply:
  "websocketHeaders req k =
     (if k = ''Host'' then Some [Host req]
      else if k \<in> set stripWebsocketHeaders then None
      else Header req k)"
  using canonical_strip_names
  by (simp add: websocketHeaders_def Header_Set_def Header_Del_def canonical_Host
      stripWebsocketHeaders_def)

lemma toLower_toLower: "toLower (toLower c) = toLower c"
  by (auto simp: toLower_def Let_def)

lemma toUpper_toLower: "toUpper (toLower c) = toUpper c"
  by (auto simp: toLower_def toUpper_def Let_def)

lemma valid_toLower: "validHeaderFieldByte (toLower c) = validHeaderFieldByte c"
  by (auto simp: toLower_def validHeaderFieldByte_def Let_def)

lemma canonical_of_lower:
  "canonicalMIMEHeaderKey u (map toLower cs) = canonicalMIMEHeaderKey u cs"
  by (induction cs arbitrary: u) (simp_all add: toLower_toLower toUpper_toLower)

lemma list_all_valid_lower:
  "list_all validHeaderFieldByte (map toLower s) = list_all validHeaderFieldByte s"
  by (induction s) (simp_all add: valid_toLower)

lemma CanonicalMIMEHeaderKey_fold:
  assumes "EqualFold k s" and "list_all validHeaderFieldByte s"
  shows "CanonicalMIMEHeaderKey k = CanonicalMIMEHeaderKey s"
proof -
  from assms(1) have eq: "map toLower k = map toLower s"
    by (simp add: EqualFold_def)
  have "list_all validHeaderFieldByte k"
    using assms(2) list_all_valid_lower [of k] list_all_valid_lower [of s] eq by simp
  moreover have "canonicalMIMEHeaderKey True k = canonicalMIMEHeaderKey True s"
    using canonical_of_lower [of True k] canonical_of_lower [of True s] eq by simp
  ultimately show ?thesis
    using assms(2) by (simp add: CanonicalMIMEHeaderKey_def)
qed

lemma strip_names_valid:
  "list_all (list_all validHeaderFieldByte) stripWebsocketHeaders"
  by code_simp

lemma Host_not_stripped: "list_all (\<lambda>s. \<not> EqualFold ''Host'' s) stripWebsocketHeaders"
  by code_simp

lemma strip_names_canonical:
  "list_all (\<lambda>s. CanonicalMIMEHeaderKey s = s) stripWebsocketHeaders"
  by code_simp

lemma websocketHeaders_dom:
  "k \<in> dom (websocketHeaders req) \<Longrightarrow>
     k = ''Host'' \<or> (k \<notin> set stripWebsocketHeaders \<and> k \<in> dom (Header req))"
  by (simp add: dom_def websocketHeaders_apply split: if_splits)

lemma strip_name_props:
  "s \<in> set stripWebsocketHeaders \<Longrightarrow>
     CanonicalMIMEHeaderKey s = s \<and> list_all validHeaderFieldByte s \<and> \<not> EqualFold ''Host'' s"
  using strip_names_canonical strip_names_valid Host_not_stripped
  by (simp add: list_all_iff)

text \<open>
  C2, as stated, fails: the exclusion is not case-insensitive. The copy loop indexes the
  new map with each key as it stands and \<open>Del\<close> removes the canonical name only, so
  a key \<open>upgrade\<close> in the inbound map survives although it names the excluded header
  \<open>Upgrade\<close>.
\<close>

theorem sanitizer_keeps_lowercase_upgrade:
  "websocketHeaders lowercase_request ''upgrade'' = Some [''websocket''] \<and>
   EqualFold ''upgrade'' ''Upgrade'' \<and>
   ''Upgrade'' \<in> set stripWebsocketHeaders"
proof (intro conjI)
  show "EqualFold ''upgrade'' ''Upgrade''"
    by code_simp
  show "websocketHeaders lowercase_request ''upgrade'' = Some [''websocket'']"
    by (simp add: websocketHeaders_apply lowercase_request_def stripWebsocketHeaders_def)
  show "''Upgrade'' \<in> set stripWebsocketHeaders"
    by (simp add: stripWebsocketHeaders_def)
qed

text \<open>
  C2, amended. For every request, the result maps \<open>Host\<close> to the single value
  \<open>req.Host\<close> (set, not appended, whether or not the inbound map had it), has none of
  the five canonical names of the exclusion list as a key, and agrees with the inbound
  map at every other key. When the keys of the inbound map are in canonical form, as the
  source assumes, no key of the result equals an excluded name even up to letter case.
\<close>

theorem sanitizer_on_canonical_keys:
  "websocketHeaders req ''Host'' = Some [Host req] \<and>
   (\<forall>k. k \<in> set stripWebsocketHeaders \<longrightarrow> websocketHeaders req k = None) \<and>
   (\<forall>k. k \<noteq> ''Host'' \<and> k \<notin> set stripWebsocketHeaders \<longrightarrow>
        websocketHeaders req k = Header req k) \<and>
   ((\<forall>k. k \<in> dom (Header req) \<longrightarrow> CanonicalMIMEHeaderKey k = k) \<longrightarrow>
    (\<forall>k s. k \<in> dom (websocketHeaders req) \<and> s \<in> set stripWebsocketHeaders \<longrightarrow>
        \<not> EqualFold k s))"
proof (intro conjI allI impI)
  show "websocketHeaders req ''Host'' = Some [Host req]"
    by (simp add: websocketHeaders_apply)
next
  fix k assume "k \<in> set stripWebsocketHeaders"
  moreover from this have "k \<noteq> ''Host''"
    by (auto simp: stripWebsocketHeaders_def)
  ultimately show "websocketHeaders req k = None"
    by (simp add: websocketHeaders_apply)
next
  fix k assume "k \<noteq> ''Host'' \<and> k \<notin> set stripWebsocketHeaders"
  then show "websocketHeaders req k = Header req k"
    by (simp add: websocketHeaders_apply)
next
  fix k s
  assume canon: "\<forall>k. k \<in> dom (Header req) \<longrightarrow> CanonicalMIMEHeaderKey k = k"
    and ks: "k \<in> dom (websocketHeaders req) \<and> s \<in> set stripWebsocketHeaders"
  from ks have s: "s \<in> set stripWebsocketHeaders" and k: "k \<in> dom (websocketHeaders req)"
    by simp_all
  note props = strip_name_props [OF s]
  show "\<not> EqualFold k s"
  proof
    assume fold: "EqualFold k s"
    from websocketHeaders_dom [OF k] show False
    proof
      assume "k = ''Host''"
      with fold props show False
        by simp
    next
      assume rest: "k \<notin> set stripWebsocketHeaders \<and> k \<in> dom (Header req)"
      with canon have "CanonicalMIMEHeaderKey k = k"
        by blast
      moreover have "CanonicalMIMEHeaderKey k = CanonicalMIMEHeaderKey s"
        using CanonicalMIMEHeaderKey_fold fold props by blast
      ultimately have "k = s"
        using props by simp
      with rest s show False
        by simp
    qed
  qed
qed

lemma rfc_request_keys_canonical:
  "\<forall>k. k \<in> dom (Header rfc_request) \<longrightarrow> CanonicalMIMEHeaderKey k = k"
proof (intro allI impI)
  fix k assume "k \<in> dom (Header rfc_request)"
  then have "k \<in> set [''Connection'', ''Upgrade'', ''Sec-Websocket-Key'', ''Origin'']"
    by (simp add: rfc_request_def dom_def split: if_splits)
  moreover have "list_all (\<lambda>k. CanonicalMIMEHeaderKey k = k)
      [''Connection'', ''Upgrade'', ''Sec-Websocket-Key'', ''Origin'']"
    by code_simp
  ultimately show "CanonicalMIMEHeaderKey k = k"
    unfolding list_all_iff by blast
qed

theorem sanitizer_on_canonical_keys_witness:
  "websocketHeaders rfc_request ''Host'' = Some [''server.example.com''] \<and>
   websocketHeaders rfc_request ''Upgrade'' = None \<and>
   websocketHeaders rfc_request ''Origin'' = Some [''http://example.com''] \<and>
   \<not> EqualFold ''Origin'' ''Upgrade''"
proof -
  note inst = sanitizer_on_canonical_keys [of rfc_request]
  have up: "''Upgrade'' \<in> set stripWebsocketHeaders"
    and origin: "''Origin'' \<noteq> ''Host'' \<and> ''Origin'' \<notin> set stripWebsocketHeaders"
    by (simp_all add: stripWebsocketHeaders_def)
  have vals: "Header rfc_request ''Origin'' = Some [''http://example.com'']"
    "Host rfc_request = ''server.example.com''"
    by (simp_all add: rfc_request_def)
  have c1: "websocketHeaders rfc_request ''Host'' = Some [''server.example.com'']"
    using inst vals by simp
  have c2: "websocketHeaders rfc_request ''Upgrade'' = None"
    using inst up by blast
  have c3: "websocketHeaders rfc_request ''Origin'' = Some [''http://example.com'']"
    using inst origin vals by metis
  have "''Origin'' \<in> dom (websocketHeaders rfc_request)"
    using c3 by (simp add: dom_def)
  with inst rfc_request_keys_canonical up have c4: "\<not> EqualFold ''Origin'' ''Upgrade''"
    by blast
  from c1 c2 c3 c4 show ?thesis
    by blast
qed

section \<open>The response header builder\<close>

lemma canonical_response_names:
  "CanonicalMIMEHeaderKey ''Connection'' = ''Connection''"
  "CanonicalMIMEHeaderKey ''Sec-Websocket-Accept'' = ''Sec-Websocket-Accept''"
  "CanonicalMIMEHeaderKey ''Sec-WebSocket-Accept'' = ''Sec-Websocket-Accept''"
  "CanonicalMIMEHeaderKey ''Upgrade'' = ''Upgrade''"
  by code_simp+

lemma NewResponseHeader_eq:
  "NewResponseHeader req =
     [''Connection'' \<mapsto> [''Upgrade''],
      ''Sec-Websocket-Accept'' \<mapsto> [generateAcceptKey req],
      ''Upgrade'' \<mapsto> [''websocket'']]"
  by (simp add: NewResponseHeader_def Header_Add_def canonical_response_names)

lemma generateAcceptKey_eq:
  "generateAcceptKey req =
     sha1Base64 (Header_Get (Header req) ''Sec-WebSocket-Key'' @
                 ''258EAFA5-E914-47DA-95CA-C5AB0DC85B11'')"
  by (simp add: generateAcceptKey_def)

lemma generateAcceptKey_rfc_request:
  "generateAcceptKey rfc_request = ''s3pPLMBiTxaQ9kYGzzhZRbK+xOo=''"
  by (simp add: generateAcceptKey_def Header_Get_def canonical_key_name rfc_request_def
      sha1Base64_rfc)

text \<open>
  C7. For every request, \<open>NewResponseHeader\<close> returns exactly three entries:
  \<open>Connection: Upgrade\<close>, \<open>Upgrade: websocket\<close> and \<open>Sec-Websocket-Accept\<close> with the
  accept token of the request's nonce, and no other key. The result is a function of the
  request's header map alone, so two calls on the same request agree.
\<close>

theorem NewResponseHeader_three:
  "NewResponseHeader req =
     [''Connection'' \<mapsto> [''Upgrade''],
      ''Sec-Websocket-Accept'' \<mapsto>
         [sha1Base64 (Header_Get (Header req) ''Sec-WebSocket-Key'' @
                      ''258EAFA5-E914-47DA-95CA-C5AB0DC85B11'')],
      ''Upgrade'' \<mapsto> [''websocket'']] \<and>
   dom (NewResponseHeader req) = {''Connection'', ''Sec-Websocket-Accept'', ''Upgrade''} \<and>
   (\<forall>req'. Header req' = Header req \<longrightarrow> NewResponseHeader req' = NewResponseHeader req)"
proof (intro conjI allI impI)
  show "NewResponseHeader req =
     [''Connection'' \<mapsto> [''Upgrade''],
      ''Sec-Websocket-Accept'' \<mapsto>
         [sha1Base64 (Header_Get (Header req) ''Sec-WebSocket-Key'' @
                      ''258EAFA5-E914-47DA-95CA-C5AB0DC85B11'')],
      ''Upgrade'' \<mapsto> [''websocket'']]"
    by (simp only: NewResponseHeader_eq generateAcceptKey_eq)
  show "dom (NewResponseHeader req) = {''Connection'', ''Sec-Websocket-Accept'', ''Upgrade''}"
    unfolding NewResponseHeader_eq by auto
  fix req' :: Request
  assume "Header req' = Header req"
  then show "NewResponseHeader req' = NewResponseHeader req"
    by (simp add: NewResponseHeader_eq generateAcceptKey_eq)
qed

theorem NewResponseHeader_three_witness:
  "NewResponseHeader rfc_request =
     [''Connection'' \<mapsto> [''Upgrade''],
      ''Sec-Websocket-Accept'' \<mapsto> [''s3pPLMBiTxaQ9kYGzzhZRbK+xOo=''],
      ''Upgrade'' \<mapsto> [''websocket'']] \<and>
   NewResponseHeader (rfc_request\<lparr>Method := ''POST''\<rparr>) = NewResponseHeader rfc_request"
proof -
  note inst = NewResponseHeader_three [of rfc_request]
  have same: "Header (rfc_request\<lparr>Method := ''POST''\<rparr>) = Header rfc_request"
    by simp
  have "sha1Base64 (Header_Get (Header rfc_request) ''Sec-WebSocket-Key'' @
                      ''258EAFA5-E914-47DA-95CA-C5AB0DC85B11'') = ''s3pPLMBiTxaQ9kYGzzhZRbK+xOo=''"
    using generateAcceptKey_rfc_request by (simp only: generateAcceptKey_eq)
  with inst same show ?thesis
    by metis
qed

lemma empty_nonce_token_chars:
  "list_all (\<lambda>c. c \<in> set encodeStd \<or> c = CHR ''='') ''Kfh9QIsMVZcl6xEPYxPHzW8SZ8w=''"
  by code_simp

text \<open>
  C9. When the request has no \<open>Sec-Websocket-Key\<close> entry, \<open>NewResponseHeader\<close> still
  returns the three headers; the token is that of the empty nonce, the base64 encoding of
  the SHA-1 digest of the GUID alone, \<open>Kfh9QIsMVZcl6xEPYxPHzW8SZ8w=\<close>: 28 characters of
  the base64 alphabet and padding. Nothing checks that a nonce is present.
\<close>

theorem NewResponseHeader_without_nonce:
  assumes "Header req ''Sec-Websocket-Key'' = None"
  shows "generateAcceptKey req = sha1Base64 ''258EAFA5-E914-47DA-95CA-C5AB0DC85B11'' \<and>
         generateAcceptKey req = ''Kfh9QIsMVZcl6xEPYxPHzW8SZ8w='' \<and>
         length (generateAcceptKey req) = 28 \<and>
         list_all (\<lambda>c. c \<in> set encodeStd \<or> c = CHR ''='') (generateAcceptKey req) \<and>
         NewResponseHeader req =
           [''Connection'' \<mapsto> [''Upgrade''],
            ''Sec-Websocket-Accept'' \<mapsto> [''Kfh9QIsMVZcl6xEPYxPHzW8SZ8w=''],
            ''Upgrade'' \<mapsto> [''websocket'']]"
proof -
  have nonce: "Header_Get (Header req) ''Sec-WebSocket-Key'' = []"
    using assms by (simp add: Header_Get_def canonical_key_name)
  have key: "generateAcceptKey req = sha1Base64 ''258EAFA5-E914-47DA-95CA-C5AB0DC85B11''"
    by (simp add: generateAcceptKey_def nonce)
  then have val: "generateAcceptKey req = ''Kfh9QIsMVZcl6xEPYxPHzW8SZ8w=''"
    by (simp only: sha1Base64_guid)
  have len: "length (generateAcceptKey req) = 28"
    by (simp only: generateAcceptKey_eq length_sha1Base64)
  have chars: "list_all (\<lambda>c. c \<in> set encodeStd \<or> c = CHR ''='') (generateAcceptKey req)"
    by (simp only: val empty_nonce_token_chars)
  have hdr: "NewResponseHeader req =
           [''Connection'' \<mapsto> [''Upgrade''],
            ''Sec-Websocket-Accept'' \<mapsto> [''Kfh9QIsMVZcl6xEPYxPHzW8SZ8w=''],
            ''Upgrade'' \<mapsto> [''websocket'']]"
    by (simp only: NewResponseHeader_eq val)
  from key val len chars hdr show ?thesis
    by blast
qed

theorem NewResponseHeader_without_nonce_witness:
  "Header plain_get ''Sec-Websocket-Key'' = None \<and>
   generateAcceptKey plain_get = ''Kfh9QIsMVZcl6xEPYxPHzW8SZ8w='' \<and>
   NewResponseHeader plain_get =
     [''Connection'' \<mapsto> [''Upgrade''],
      ''Sec-Websocket-Accept'' \<mapsto> [''Kfh9QIsMVZcl6xEPYxPHzW8SZ8w=''],
      ''Upgrade'' \<mapsto> [''websocket'']]"
proof -
  have absent: "Header plain_get ''Sec-Websocket-Key'' = None"
    by (simp add: plain_get_def)
  from NewResponseHeader_without_nonce [OF absent] absent show ?thesis
    by blast
qed

section \<open>The backend connector\<close>

lemma ClientConnect_header_unchanged:
  "websocketHeaders (req\<lparr>URL := u\<rparr>) = websocketHeaders req"
  "generateAcceptKey (req\<lparr>URL := u\<rparr>) = generateAcceptKey req"
  by (simp_all add: websocketHeaders_def generateAcceptKey_def)

text \<open>
  C3. When the dial returns a response and no error, \<open>ClientConnect\<close> returns the
  dial's connection, no error, and the dial's response with its \<open>Sec-Websocket-Accept\<close>
  entry set to the accept token of the inbound request's nonce, whatever the backend had
  put there.
\<close>

theorem ClientConnect_success:
  assumes "Dial env (case dialler of None \<Rightarrow> default_Dialer env | Some d \<Rightarrow> d)
             (URL_String env ((URL req)\<lparr>Scheme := ChangeRequestScheme (URL req)\<rparr>))
             (websocketHeaders req) w = ((conn, Some r, None), w1)"
  shows "fst (ClientConnect env req dialler w) =
           Return conn
             (Some (r\<lparr>Response_Header := (Response_Header r)
                (''Sec-Websocket-Accept'' \<mapsto>
                   [sha1Base64 (Header_Get (Header req) ''Sec-WebSocket-Key'' @
                                ''258EAFA5-E914-47DA-95CA-C5AB0DC85B11'')])\<rparr>))
             None"
  using assms
  by (simp add: ClientConnect_def Let_def ClientConnect_header_unchanged Header_Set_def
      canonical_response_names generateAcceptKey_eq)

theorem ClientConnect_success_witness:
  "fst (ClientConnect accepting_backend rfc_request None 0) =
     Return (Some 7)
       (Some \<lparr>StatusCode = 101,
              Response_Header = [''Sec-Websocket-Accept'' \<mapsto> [''s3pPLMBiTxaQ9kYGzzhZRbK+xOo='']]\<rparr>)
       None"
proof -
  have dial: "Dial accepting_backend
      (case None of None \<Rightarrow> default_Dialer accepting_backend | Some d \<Rightarrow> d)
      (URL_String accepting_backend
         ((URL rfc_request)\<lparr>Scheme := ChangeRequestScheme (URL rfc_request)\<rparr>))
      (websocketHeaders rfc_request) 0 =
      ((Some 7,
        Some \<lparr>StatusCode = 101,
              Response_Header = [''Sec-Websocket-Accept'' \<mapsto> [''from-the-backend'']]\<rparr>,
        None), Suc 0)"
    by (simp add: accepting_backend_def)
  have token: "sha1Base64 (Header_Get (Header rfc_request) ''Sec-WebSocket-Key'' @
                      ''258EAFA5-E914-47DA-95CA-C5AB0DC85B11'') = ''s3pPLMBiTxaQ9kYGzzhZRbK+xOo=''"
    using generateAcceptKey_rfc_request by (simp only: generateAcceptKey_eq)
  show ?thesis
    using ClientConnect_success [OF dial] by (simp add: token)
qed

text \<open>
  C4. When the dial returns an error, \<open>ClientConnect\<close> returns no connection, the
  response the dial gave (nil or partial) and that same error; the world is the one left
  by this single dial, so the dial is not repeated.
\<close>

theorem ClientConnect_failure:
  assumes "Dial env (case dialler of None \<Rightarrow> default_Dialer env | Some d \<Rightarrow> d)
             (URL_String env ((URL req)\<lparr>Scheme := ChangeRequestScheme (URL req)\<rparr>))
             (websocketHeaders req) w = ((conn, response, Some err), w1)"
  shows "ClientConnect env req dialler w =
           (Return None response (Some err),
            req\<lparr>URL := (URL req)\<lparr>Scheme := ChangeRequestScheme (URL req)\<rparr>\<rparr>,
            w1)"
  using assms
  by (simp add: ClientConnect_def Let_def ClientConnect_header_unchanged)

theorem ClientConnect_failure_witness:
  "ClientConnect refusing_backend rfc_request None 0 =
     (Return None (Some \<lparr>StatusCode = 502, Response_Header = Map.empty\<rparr>)
        (Some ''websocket: bad handshake''),
      rfc_request\<lparr>URL := (URL rfc_request)\<lparr>Scheme := ''ws''\<rparr>\<rparr>,
      Suc 0)"
proof -
  have dial: "Dial refusing_backend
      (case None of None \<Rightarrow> default_Dialer refusing_backend | Some d \<Rightarrow> d)
      (URL_String refusing_backend
         ((URL rfc_request)\<lparr>Scheme := ChangeRequestScheme (URL rfc_request)\<rparr>))
      (websocketHeaders rfc_request) 0 =
      ((None, Some \<lparr>StatusCode = 502, Response_Header = Map.empty\<rparr>,
        Some ''websocket: bad handshake''), Suc 0)"
    by (simp add: refusing_backend_def)
  have scheme: "ChangeRequestScheme (URL rfc_request) = ''ws''"
    by (simp add: ChangeRequestScheme_def rfc_request_def)
  show ?thesis
    using ClientConnect_failure [OF dial] by (simp add: scheme)
qed

lemma ClientConnect_request:
  "fst (snd (ClientConnect env req dialler w)) =
     req\<lparr>URL := (URL req)\<lparr>Scheme := ChangeRequestScheme (URL req)\<rparr>\<rparr>"
  by (simp add: ClientConnect_def Let_def split: prod.splits option.splits)

lemma ClientConnect_world:
  "snd (snd (ClientConnect env req dialler w)) =
     snd (Dial env (case dialler of None \<Rightarrow> default_Dialer env | Some d \<Rightarrow> d)
            (URL_String env ((URL req)\<lparr>Scheme := ChangeRequestScheme (URL req)\<rparr>))
            (websocketHeaders req) w)"
  by (simp add: ClientConnect_def Let_def ClientConnect_header_unchanged
      split: prod.splits option.splits)

text \<open>
  C10. \<open>ClientConnect\<close> leaves the caller's request with the translated scheme in
  \<open>URL.Scheme\<close> and everything else as it was, the header map included: the sanitized
  headers are a map of their own. The dial is made with the URL printed after the
  rewrite. This holds on every path; with the refusing backend the request comes back
  with scheme \<open>wss\<close> next to the error.
\<close>

theorem ClientConnect_rewrites_scheme_only:
  "fst (snd (ClientConnect env req dialler w)) =
     req\<lparr>URL := (URL req)\<lparr>Scheme := ChangeRequestScheme (URL req)\<rparr>\<rparr> \<and>
   Scheme (URL (fst (snd (ClientConnect env req dialler w)))) = ChangeRequestScheme (URL req) \<and>
   URL_Host (URL (fst (snd (ClientConnect env req dialler w)))) = URL_Host (URL req) \<and>
   Path (URL (fst (snd (ClientConnect env req dialler w)))) = Path (URL req) \<and>
   RawQuery (URL (fst (snd (ClientConnect env req dialler w)))) = RawQuery (URL req) \<and>
   Header (fst (snd (ClientConnect env req dialler w))) = Header req \<and>
   Host (fst (snd (ClientConnect env req dialler w))) = Host req \<and>
   Method (fst (snd (ClientConnect env req dialler w))) = Method req \<and>
   snd (snd (ClientConnect env req dialler w)) =
     snd (Dial env (case dialler of None \<Rightarrow> default_Dialer env | Some d \<Rightarrow> d)
            (URL_String env ((URL req)\<lparr>Scheme := ChangeRequestScheme (URL req)\<rparr>))
            (websocketHeaders req) w) \<and>
   ClientConnect refusing_backend plain_get None 0 =
     (Return None (Some \<lparr>StatusCode = 502, Response_Header = Map.empty\<rparr>)
        (Some ''websocket: bad handshake''),
      plain_get\<lparr>URL := (URL plain_get)\<lparr>Scheme := ''wss''\<rparr>\<rparr>,
      Suc 0)"
proof -
  have "ClientConnect refusing_backend plain_get None 0 =
     (Return None (Some \<lparr>StatusCode = 502, Response_Header = Map.empty\<rparr>)
        (Some ''websocket: bad handshake''),
      plain_get\<lparr>URL := (URL plain_get)\<lparr>Scheme := ''wss''\<rparr>\<rparr>,
      Suc 0)"
    by (simp add: ClientConnect_def Let_def refusing_backend_def ChangeRequestScheme_def
        plain_get_def)
  then show ?thesis
    by (simp add: ClientConnect_request ClientConnect_world)
qed

section \<open>The upgrade detector\<close>

lemma contains_token_examples:
  "contains_token ''Upgrade'' ''keep-alive, Upgrade''"
  "contains_token ''Upgrade'' ''upgrade''"
  "\<not> contains_token ''Upgrade'' ''keep-alive''"
  "\<not> contains_token ''Upgrade'' ''keep-alive Upgrade''"
  by code_simp+

text \<open>
  C6. \<open>IsWebSocketUpgrade\<close> is true iff some \<open>Connection\<close> value has the token
  \<open>Upgrade\<close> in its comma-separated list, compared without regard to case, and some
  \<open>Upgrade\<close> value equals \<open>websocket\<close> without regard to case. It is false for a plain
  GET without headers and true for \<open>Connection: keep-alive, Upgrade\<close> with
  \<open>Upgrade: websocket\<close>.
\<close>

theorem IsWebSocketUpgrade_contract:
  "IsWebSocketUpgrade req =
     (list_ex (contains_token ''Upgrade'') (header_values (Header req) ''Connection'') \<and>
      list_ex (\<lambda>v. EqualFold v ''websocket'') (header_values (Header req) ''Upgrade'')) \<and>
   \<not> IsWebSocketUpgrade plain_get \<and>
   IsWebSocketUpgrade rfc_request \<and>
   IsWebSocketUpgrade
     (plain_get\<lparr>Header := [''Connection'' \<mapsto> [''keep-alive, Upgrade''],
                            ''Upgrade'' \<mapsto> [''WebSocket'']]\<rparr>) \<and>
   \<not> IsWebSocketUpgrade
     (plain_get\<lparr>Header := [''Connection'' \<mapsto> [''keep-alive''],
                            ''Upgrade'' \<mapsto> [''websocket'']]\<rparr>)"
proof -
  have fold: "EqualFold ''websocket'' ''websocket''" "EqualFold ''WebSocket'' ''websocket''"
    by code_simp+
  show ?thesis
    by (simp add: IsWebSocketUpgrade_def gorilla_IsWebSocketUpgrade_def header_values_def
        plain_get_def rfc_request_def contains_token_examples fold)
qed

section \<open>The stream relay\<close>

text \<open>
  \<open>Stream\<close> starts two goroutines, one \<open>io.Copy\<close> in each direction, and returns at
  the first value received on the channel they share. Its behaviour lies in the
  scheduling of the two copies and is not part of this development.
\<close>

end
